theory Spec2Isabelle
  imports Complex_Main
begin

section \<open>The command-line entry point of sgpt (src/sgpt/app.py)\<close>

text \<open>
  The entry point \<^verbatim>\<open>main\<close> validates its arguments, resolves a role and then drives one
  of several control loops around the completion handlers. It is embedded as a function
  from the command-line arguments and an environment to the list of calls it makes to
  its collaborators (the trace) and the way the run ends.

  The collaborators (the handlers, the role registry, the terminal, the command
  executor) are not part of \<^verbatim>\<open>app.py\<close>. Each call to one of them is an event of the
  trace; what a call returns is read from the environment. The answer of a completion
  handler may depend on every call made before it (\<open>respond\<close> sees the trace), which
  covers the conversation store and the response cache behind the handlers.
\<close>

subsection \<open>Data\<close>

text \<open>Exceptions that end a run. \<open>UnboundLocalError\<close> is what Python raises when a
  local variable is read on a path that never assigned it.\<close>

datatype error =
    MissingParameter
  | BadArgumentUsage string
  | UnboundLocalError
  | CompletionFailedError

text \<open>The message of the check on the three mode flags (line 183).\<close>

definition ConflictingModeError :: error where
  "ConflictingModeError =
     BadArgumentUsage ''Only one of --shell, --describe-shell, and --code options can be used at a time.''"

definition ChatReplError :: error where
  "ChatReplError = BadArgumentUsage ''--chat and --repl options cannot be used together.''"

definition EditorStdinError :: error where
  "EditorStdinError = BadArgumentUsage ''--editor option cannot be used with stdin input.''"

text \<open>A role: the persona of a request. The class lives in \<^verbatim>\<open>sgpt/role.py\<close>; the fields
  are those of the specification's data model.\<close>

datatype output_kind = FreeText | ShellCommand | Code | Description

record SystemRole =
  role_name :: string
  system_prompt :: string
  expected_output_kind :: output_kind

datatype DefaultRoles = DEFAULT | SHELL | DESCRIBE_SHELL | CODE

text \<open>The three handler classes. A handler object is the value of its constructor's
  arguments.\<close>

datatype handler =
    ChatHandler "string option" SystemRole
  | DefaultHandler SystemRole
  | ReplHandler "string option" SystemRole

text \<open>The answers \<^verbatim>\<open>typer.prompt\<close> accepts in the confirmation loop (line 261).\<close>

datatype choice = E | D | A | Y

text \<open>
  Calls to the collaborators, in the order \<^verbatim>\<open>main\<close> makes them. \<open>Handle h p m t tp c k\<close>
  is \<^verbatim>\<open>h.handle(p, model=m, temperature=t, top_probability=tp, chat_id=c, caching=k)\<close>;
  the default handler is called without a \<^verbatim>\<open>chat_id\<close>, written \<open>None\<close> here, as is a
  \<^verbatim>\<open>chat_id\<close> that is Python's \<^verbatim>\<open>None\<close>. The two sampling numbers are only passed on.
\<close>

datatype event =
    StdinRead
  | RoleGet "string option"
  | CheckGet bool bool bool
  | Handle handler "string option" string rat rat "string option" bool
  | Input string
  | Print string string
  | TyperPrompt choice
  | RunCommand string

text \<open>How a run ends. \<open>Awaiting\<close>: the program is blocked at a read and the scripted
  input is used up. \<open>Running\<close>: the program is still inside a loop that reads nothing,
  after the number of rounds the caller asked to observe.\<close>

datatype outcome = Returned | Raised error | Awaiting | Running

text \<open>The arguments of \<^verbatim>\<open>main\<close> that its body reads (lines 45 to 156). The options whose
  work is done by a callback before the body runs are left out.\<close>

record args =
  prompt :: "string option"
  model :: string
  temperature :: rat
  top_probability :: rat
  shell :: bool
  describe_shell :: bool
  code :: bool
  editor :: bool
  cache :: bool
  chat :: "string option"
  repl :: "string option"
  role :: "string option"
  second_ai :: bool
  second_ai_prompt :: "string option"
  interactive_mode :: bool

text \<open>
  The environment of a run: whether standard input is a terminal, what reading it to
  the end returns, the lines the user types at a line prompt, the answers given to
  \<^verbatim>\<open>typer.prompt\<close> (\<open>None\<close>: the user accepted the default), the configuration, the
  role registry and the default roles' table (both in \<^verbatim>\<open>sgpt/role.py\<close>), and the
  completion handlers' answers.
\<close>

record env =
  stdin_isatty :: bool
  stdin_text :: string
  user_lines :: "string list"
  replies :: "choice option list"
  cfg :: "string \<Rightarrow> string"
  system_role_get :: "string option \<Rightarrow> error + SystemRole"
  get_role :: "DefaultRoles \<Rightarrow> SystemRole"
  respond :: "event list \<Rightarrow> error + string"

subsection \<open>Python's truth values\<close>

text \<open>An optional string is false when it is \<^verbatim>\<open>None\<close> or empty.\<close>

fun truthy :: "string option \<Rightarrow> bool" where
  "truthy None = False"
| "truthy (Some s) = (s \<noteq> [])"

text \<open>\<^verbatim>\<open>prompt or ''\<close>.\<close>

fun or_empty :: "string option \<Rightarrow> string" where
  "or_empty None = []"
| "or_empty (Some s) = s"

text \<open>\<^verbatim>\<open>sum((shell, describe_shell, code))\<close>: the number of flags that are set.\<close>

definition sum_flags :: "bool \<Rightarrow> bool \<Rightarrow> bool \<Rightarrow> nat" where
  "sum_flags s d c = of_bool s + of_bool d + of_bool c"

subsection \<open>Role resolution\<close>

text \<open>
  Modelled from the spec: \<^verbatim>\<open>DefaultRoles.check_get\<close> is in \<^verbatim>\<open>sgpt/role.py\<close>, which is
  not among the sources. Section 4.1: the role is derived from the mutually exclusive
  mode flags (shell, describe-shell, code, plain default), and resolution fails with
  the conflicting-mode error if more than one flag is set.
\<close>

definition check_get :: "env \<Rightarrow> bool \<Rightarrow> bool \<Rightarrow> bool \<Rightarrow> error + SystemRole" where
  "check_get env s d c =
     (if sum_flags s d c > 1 then Inl ConflictingModeError
      else if s then Inr (get_role env SHELL)
      else if d then Inr (get_role env DESCRIBE_SHELL)
      else if c then Inr (get_role env CODE)
      else Inr (get_role env DEFAULT))"

subsection \<open>Calling a handler\<close>

text \<open>One call of \<^verbatim>\<open>handle\<close>: the call is logged, and the answer or the exception is
  what the environment gives after the calls so far.\<close>

definition call_handle :: "env \<Rightarrow> event \<Rightarrow> event list \<Rightarrow> event list \<times> (error + string)" where
  "call_handle env ev tr = (tr @ [ev], respond env (tr @ [ev]))"

text \<open>\<^verbatim>\<open>handle_second_ai\<close> (lines 14 to 22): one call of the handler it is given, with the
  second prompt, under the chat id it is given. The answer is dropped.\<close>

definition handle_second_ai ::
  "env \<Rightarrow> handler \<Rightarrow> string option \<Rightarrow> string \<Rightarrow> rat \<Rightarrow> rat \<Rightarrow> string option \<Rightarrow> bool
     \<Rightarrow> event list \<Rightarrow> event list \<times> outcome" where
  "handle_second_ai env chat_handler second_prompt m t tp chat_id caching tr =
     (case call_handle env (Handle chat_handler second_prompt m t tp chat_id caching) tr of
        (tr1, Inl e) \<Rightarrow> (tr1, Raised e)
      | (tr1, Inr _) \<Rightarrow> (tr1, Returned))"

text \<open>\<^verbatim>\<open>handle_user_input\<close> (lines 24 to 42): one call, then the two lines printed.\<close>

definition handle_user_input ::
  "env \<Rightarrow> handler \<Rightarrow> string \<Rightarrow> string \<Rightarrow> rat \<Rightarrow> rat \<Rightarrow> string option \<Rightarrow> bool
     \<Rightarrow> event list \<Rightarrow> event list \<times> outcome" where
  "handle_user_input env chat_handler user_input m t tp chat_id caching tr =
     (case call_handle env (Handle chat_handler (Some user_input) m t tp chat_id caching) tr of
        (tr1, Inl e) \<Rightarrow> (tr1, Raised e)
      | (tr1, Inr user_response) \<Rightarrow>
          (tr1 @ [Print ''You:'' user_input, Print ''AI:'' user_response], Returned))"

subsection \<open>The loops\<close>

text \<open>
  The interactive loop (lines 166 to 176): \<^verbatim>\<open>while True\<close> around a line read and
  \<^verbatim>\<open>handle_user_input\<close>. The body has no \<^verbatim>\<open>break\<close> and no \<^verbatim>\<open>return\<close>. The recursion is
  over the lines the user types.
\<close>

fun interactive_loop ::
  "env \<Rightarrow> handler \<Rightarrow> string \<Rightarrow> rat \<Rightarrow> rat \<Rightarrow> string option \<Rightarrow> bool
     \<Rightarrow> string list \<Rightarrow> event list \<Rightarrow> event list \<times> outcome" where
  "interactive_loop env chat_handler m t tp chat_id caching [] tr = (tr, Awaiting)"
| "interactive_loop env chat_handler m t tp chat_id caching (user_input # rest) tr =
     (case handle_user_input env chat_handler user_input m t tp chat_id caching
             (tr @ [Input user_input]) of
        (tr1, Returned) \<Rightarrow> interactive_loop env chat_handler m t tp chat_id caching rest tr1
      | (tr1, out) \<Rightarrow> (tr1, out))"

text \<open>
  Modelled from the spec: \<^verbatim>\<open>ReplHandler.handle\<close> is in \<^verbatim>\<open>sgpt/handlers/repl_handler.py\<close>,
  which is not among the sources. Section 4.5: an unbounded loop that reads one prompt
  per iteration from the user, calls \<^verbatim>\<open>handle\<close> with a fixed chat id and role, prints
  the exchange, and continues indefinitely. The specification gives the prompt argument
  that \<^verbatim>\<open>main\<close> passes no part in the loop.
\<close>

fun repl_handle ::
  "env \<Rightarrow> handler \<Rightarrow> string option \<Rightarrow> string \<Rightarrow> rat \<Rightarrow> rat \<Rightarrow> string option \<Rightarrow> bool
     \<Rightarrow> string list \<Rightarrow> event list \<Rightarrow> event list \<times> outcome" where
  "repl_handle env h init_prompt m t tp chat_id caching [] tr = (tr, Awaiting)"
| "repl_handle env h init_prompt m t tp chat_id caching (line # rest) tr =
     (case call_handle env (Handle h (Some line) m t tp chat_id caching) (tr @ [Input line]) of
        (tr1, Inl e) \<Rightarrow> (tr1, Raised e)
      | (tr1, Inr answer) \<Rightarrow>
          repl_handle env h init_prompt m t tp chat_id caching rest
            (tr1 @ [Print line answer]))"

text \<open>
  The two-handler loop (lines 224 to 248): \<^verbatim>\<open>while True\<close> with no exit. It reads no
  input, so the recursion is over the number of rounds observed. The last two lines of
  the body assign the first answer to \<^verbatim>\<open>prompt\<close> and the second answer to
  \<^verbatim>\<open>second_ai_prompt\<close>.
\<close>

fun dual_loop ::
  "env \<Rightarrow> handler \<Rightarrow> handler \<Rightarrow> string \<Rightarrow> rat \<Rightarrow> rat \<Rightarrow> string option \<Rightarrow> bool
     \<Rightarrow> nat \<Rightarrow> string option \<Rightarrow> string option \<Rightarrow> event list \<Rightarrow> event list \<times> outcome" where
  "dual_loop env chat_handler second_ai_handler m t tp chat_id caching 0 p sp tr = (tr, Running)"
| "dual_loop env chat_handler second_ai_handler m t tp chat_id caching (Suc rounds) p sp tr =
     (case call_handle env (Handle chat_handler p m t tp chat_id caching) tr of
        (tr1, Inl e) \<Rightarrow> (tr1, Raised e)
      | (tr1, Inr first_ai_response) \<Rightarrow>
          (case call_handle env
                  (Handle second_ai_handler sp m t tp (Some ''second_ai'') caching)
                  (tr1 @ [Print ''First AI:'' first_ai_response]) of
             (tr2, Inl e) \<Rightarrow> (tr2, Raised e)
           | (tr2, Inr second_ai_response) \<Rightarrow>
               dual_loop env chat_handler second_ai_handler m t tp chat_id caching rounds
                 (Some first_ai_response) (Some second_ai_response)
                 (tr2 @ [Print ''Second AI:'' second_ai_response])))"

text \<open>\<^verbatim>\<open>typer.prompt\<close> with the default of line 262.\<close>

definition typer_prompt :: "env \<Rightarrow> choice option \<Rightarrow> choice" where
  "typer_prompt env reply =
     (case reply of
        Some c \<Rightarrow> c
      | None \<Rightarrow> if cfg env ''DEFAULT_EXECUTE_SHELL_CMD'' = ''true'' then E else A)"

text \<open>
  The confirmation loop (lines 258 to 276): \<^verbatim>\<open>while shell and not stdin_passed\<close>. The
  variable \<^verbatim>\<open>full_completion\<close> is \<open>None\<close> on a path that never assigned it; reading it
  there raises. The test does not change while the loop runs. The body is an \<^verbatim>\<open>if\<close> with the branch for \<^verbatim>\<open>e\<close> and \<^verbatim>\<open>y\<close>, an \<^verbatim>\<open>elif\<close>
  for \<^verbatim>\<open>d\<close> that ends in \<^verbatim>\<open>continue\<close>, and nothing after it: every branch goes back to
  the loop's test. The recursion is over the answers the user gives.
\<close>

fun shell_loop ::
  "env \<Rightarrow> bool \<Rightarrow> bool \<Rightarrow> string option \<Rightarrow> string \<Rightarrow> rat \<Rightarrow> rat \<Rightarrow> bool
     \<Rightarrow> choice option list \<Rightarrow> event list \<Rightarrow> event list \<times> outcome" where
  "shell_loop env sh piped full_completion m t tp caching [] tr =
     (if sh \<and> \<not> piped then (tr, Awaiting) else (tr, Returned))"
| "shell_loop env sh piped full_completion m t tp caching (reply # rest) tr =
     (if sh \<and> \<not> piped then
        (let option = typer_prompt env reply;
             tr1 = tr @ [TyperPrompt option]
         in if option = E \<or> option = Y then
              (case full_completion of
                 None \<Rightarrow> (tr1, Raised UnboundLocalError)
               | Some cmd \<Rightarrow>
                   shell_loop env sh piped full_completion m t tp caching rest
                     (tr1 @ [RunCommand cmd]))
            else if option = D then
              (case full_completion of
                 None \<Rightarrow> (tr1, Raised UnboundLocalError)
               | Some cmd \<Rightarrow>
                   (case call_handle env
                           (Handle (DefaultHandler (get_role env DESCRIBE_SHELL)) (Some cmd)
                              m t tp None caching) tr1 of
                      (tr2, Inl e) \<Rightarrow> (tr2, Raised e)
                    | (tr2, Inr _) \<Rightarrow>
                        shell_loop env sh piped full_completion m t tp caching rest tr2))
            else shell_loop env sh piped full_completion m t tp caching rest tr1)
      else (tr, Returned))"

subsection \<open>The body of main\<close>

text \<open>Lines 158 to 161: piped input is read whole and put in front of the prompt
  argument, unless a REPL was asked for.\<close>

definition stdin_passed :: "env \<Rightarrow> bool" where
  "stdin_passed env = (\<not> stdin_isatty env)"

definition effective_prompt :: "env \<Rightarrow> args \<Rightarrow> string option" where
  "effective_prompt env a =
     (if stdin_passed env \<and> \<not> truthy (repl a)
      then Some (stdin_text env @ [CHR 0x0A, CHR 0x0A] @ or_empty (prompt a))
      else prompt a)"

definition read_stdin :: "env \<Rightarrow> args \<Rightarrow> event list" where
  "read_stdin env a = (if stdin_passed env \<and> \<not> truthy (repl a) then [StdinRead] else [])"

text \<open>Lines 192 to 196: the role comes from the flags when no role name is given.\<close>

definition resolve_role :: "env \<Rightarrow> args \<Rightarrow> event list \<Rightarrow> event list \<times> (error + SystemRole)" where
  "resolve_role env a tr =
     (if \<not> truthy (role a)
      then (tr @ [CheckGet (shell a) (describe_shell a) (code a)],
            check_get env (shell a) (describe_shell a) (code a))
      else (tr @ [RoleGet (role a)], system_role_get env (role a)))"

text \<open>Lines 209 to 256: the chat branch with its two sub-branches, or the default
  handler. The result carries \<^verbatim>\<open>full_completion\<close>, which only the \<^verbatim>\<open>else\<close> of line 249
  assigns.\<close>

definition chat_or_default ::
  "env \<Rightarrow> args \<Rightarrow> nat \<Rightarrow> string option \<Rightarrow> SystemRole \<Rightarrow> event list
     \<Rightarrow> (event list \<times> outcome) \<times> string option" where
  "chat_or_default env a rounds prompt1 role_class tr =
     (if truthy (chat a) then
        (if second_ai a \<and> second_ai_prompt a \<noteq> None then
           (handle_second_ai env (ChatHandler (chat a) role_class) (second_ai_prompt a)
              (model a) (temperature a) (top_probability a) (chat a) (cache a) tr,
            None)
         else
           (dual_loop env (ChatHandler (chat a) role_class)
              (ChatHandler (Some ''second_ai'') role_class)
              (model a) (temperature a) (top_probability a) (chat a) (cache a)
              rounds prompt1 (second_ai_prompt a) tr,
            None))
      else
        (case call_handle env
                (Handle (DefaultHandler role_class) prompt1
                   (model a) (temperature a) (top_probability a) None (cache a)) tr of
           (tr1, Inl e) \<Rightarrow> ((tr1, Raised e), None)
         | (tr1, Inr full_completion) \<Rightarrow> ((tr1, Returned), Some full_completion)))"

text \<open>Lines 198 to 276, once the role is resolved.\<close>

definition run_with_role ::
  "env \<Rightarrow> args \<Rightarrow> nat \<Rightarrow> string option \<Rightarrow> SystemRole \<Rightarrow> event list \<Rightarrow> event list \<times> outcome" where
  "run_with_role env a rounds prompt1 role_class tr =
     (case (if truthy (repl a)
            then repl_handle env (ReplHandler (repl a) role_class)
                   prompt1 (model a) (temperature a) (top_probability a) (repl a) (cache a)
                   (user_lines env) tr
            else (tr, Returned)) of
        (tr1, Returned) \<Rightarrow>
          (case chat_or_default env a rounds prompt1 role_class tr1 of
             ((tr2, Returned), full_completion) \<Rightarrow>
               shell_loop env (shell a) (stdin_passed env) full_completion
                 (model a) (temperature a) (top_probability a) (cache a) (replies env) tr2
           | ((tr2, out), _) \<Rightarrow> (tr2, out))
      | (tr1, out) \<Rightarrow> (tr1, out))"

text \<open>\<^verbatim>\<open>main\<close> (lines 157 to 276). \<open>rounds\<close> is the number of rounds of the two-handler
  loop that the caller observes.\<close>

definition main :: "env \<Rightarrow> args \<Rightarrow> nat \<Rightarrow> event list \<times> outcome" where
  "main env a rounds =
     (let tr0 = read_stdin env a;
          prompt1 = effective_prompt env a
      in if interactive_mode a then
           (case system_role_get env (role a) of
              Inl e \<Rightarrow> (tr0 @ [RoleGet (role a)], Raised e)
            | Inr r \<Rightarrow>
                interactive_loop env (ChatHandler (chat a) r)
                  (model a) (temperature a) (top_probability a) (chat a) (cache a)
                  (user_lines env) (tr0 @ [RoleGet (role a)]))
         else if \<not> truthy prompt1 \<and> \<not> editor a \<and> \<not> truthy (repl a) then
           (tr0, Raised MissingParameter)
         else if sum_flags (shell a) (describe_shell a) (code a) > 1 then
           (tr0, Raised ConflictingModeError)
         else if truthy (chat a) \<and> truthy (repl a) then
           (tr0, Raised ChatReplError)
         else if editor a \<and> stdin_passed env then
           (tr0, Raised EditorStdinError)
         else
           (case resolve_role env a tr0 of
              (tr1, Inl e) \<Rightarrow> (tr1, Raised e)
            | (tr1, Inr role_class) \<Rightarrow> run_with_role env a rounds prompt1 role_class tr1))"

subsection \<open>What the trace shows\<close>

text \<open>A completion request is a call of some handler's \<^verbatim>\<open>handle\<close>; role resolution is a
  call of the registry or of \<^verbatim>\<open>check_get\<close>; the confirmation loop's body starts with
  \<^verbatim>\<open>typer.prompt\<close>.\<close>

fun is_completion :: "event \<Rightarrow> bool" where
  "is_completion (Handle h p m t tp c k) = True"
| "is_completion _ = False"

fun is_role_resolution :: "event \<Rightarrow> bool" where
  "is_role_resolution (RoleGet n) = True"
| "is_role_resolution (CheckGet s d c) = True"
| "is_role_resolution _ = False"

fun is_typer_prompt :: "event \<Rightarrow> bool" where
  "is_typer_prompt (TyperPrompt c) = True"
| "is_typer_prompt _ = False"

definition completions :: "event list \<Rightarrow> event list" where
  "completions tr = filter is_completion tr"

definition loop_entered :: "event list \<Rightarrow> bool" where
  "loop_entered tr = list_ex is_typer_prompt tr"

text \<open>The lines read at a line prompt, in the order they were read.\<close>

fun input_of :: "event \<Rightarrow> string list" where
  "input_of (Input u) = [u]"
| "input_of _ = []"

definition inputs_read :: "event list \<Rightarrow> string list" where
  "inputs_read tr = concat (map input_of tr)"

subsection \<open>A concrete environment\<close>

text \<open>
  A small world to run \<^verbatim>\<open>main\<close> in: the four default roles with the output kinds of
  the specification, a registry that knows one user-made role, and handlers that
  answer every call. A chat handler's answer names its chat id and the prompt it got,
  so that a trace shows whose answer a later prompt is.
\<close>

definition demo_get_role :: "DefaultRoles \<Rightarrow> SystemRole" where
  "demo_get_role d =
     (case d of
        DEFAULT \<Rightarrow> \<lparr>role_name = ''default'', system_prompt = [], expected_output_kind = FreeText\<rparr>
      | SHELL \<Rightarrow> \<lparr>role_name = ''shell'', system_prompt = [], expected_output_kind = ShellCommand\<rparr>
      | DESCRIBE_SHELL \<Rightarrow>
          \<lparr>role_name = ''describe_shell'', system_prompt = [], expected_output_kind = Description\<rparr>
      | CODE \<Rightarrow> \<lparr>role_name = ''code'', system_prompt = [], expected_output_kind = Code\<rparr>)"

definition poet :: SystemRole where
  "poet = \<lparr>role_name = ''poet'', system_prompt = ''You write verse.'', expected_output_kind = FreeText\<rparr>"

definition demo_registry :: "string option \<Rightarrow> error + SystemRole" where
  "demo_registry n = (if n = Some ''poet'' then Inr poet else Inl (BadArgumentUsage ''Role not found.''))"

fun demo_answer :: "event \<Rightarrow> error + string" where
  "demo_answer (Handle (ChatHandler cid r) p m t tp c k) =
     Inr (''A('' @ or_empty c @ '','' @ or_empty p @ '')'')"
| "demo_answer (Handle (DefaultHandler r) p m t tp c k) =
     Inr (if expected_output_kind r = ShellCommand then ''ls'' else ''ok'')"
| "demo_answer (Handle (ReplHandler cid r) p m t tp c k) = Inr ''ok''"
| "demo_answer _ = Inl CompletionFailedError"

definition demo_respond :: "event list \<Rightarrow> error + string" where
  "demo_respond tr = demo_answer (last tr)"

definition demo_env :: "bool \<Rightarrow> string \<Rightarrow> string list \<Rightarrow> choice option list \<Rightarrow> env" where
  "demo_env tty text lines answers =
     \<lparr>stdin_isatty = tty, stdin_text = text, user_lines = lines, replies = answers,
      cfg = (\<lambda>k. []), system_role_get = demo_registry, get_role = demo_get_role,
      respond = demo_respond\<rparr>"

text \<open>The arguments when nothing is given on the command line (the defaults of lines 45
  to 156).\<close>

definition no_args :: args where
  "no_args =
     \<lparr>prompt = None, model = ''gpt-3.5-turbo'', temperature = 1 / 10, top_probability = 1,
      shell = False, describe_shell = False, code = False, editor = False, cache = True,
      chat = None, repl = None, role = None, second_ai = False, second_ai_prompt = None,
      interactive_mode = False\<rparr>"

section \<open>Lemmas about traces and loops\<close>

lemmas run_defs = main_def read_stdin_def effective_prompt_def stdin_passed_def
  sum_flags_def resolve_role_def check_get_def run_with_role_def chat_or_default_def
  call_handle_def handle_second_ai_def handle_user_input_def typer_prompt_def

lemmas demo_defs = demo_env_def no_args_def demo_respond_def demo_get_role_def
  demo_registry_def poet_def

lemma inputs_read_append [simp]: "inputs_read (xs @ ys) = inputs_read xs @ inputs_read ys"
  by (simp add: inputs_read_def)

lemma inputs_read_simps [simp]:
  "inputs_read [] = []"
  "inputs_read (Input u # tr) = u # inputs_read tr"
  "inputs_read (Handle h p m t tp c k # tr) = inputs_read tr"
  "inputs_read (Print x y # tr) = inputs_read tr"
  by (simp_all add: inputs_read_def)

lemma completions_append [simp]: "completions (xs @ ys) = completions xs @ completions ys"
  by (simp add: completions_def)

lemma completions_simps [simp]:
  "completions [] = []"
  "completions (Input u # tr) = completions tr"
  "completions (Handle h p m t tp c k # tr) = Handle h p m t tp c k # completions tr"
  "completions (Print x y # tr) = completions tr"
  by (simp_all add: completions_def)

lemma loop_entered_append [simp]:
  "loop_entered (xs @ ys) = (loop_entered xs \<or> loop_entered ys)"
  by (simp add: loop_entered_def list_ex_iff) blast

lemma loop_entered_simps [simp]:
  "loop_entered [] = False"
  "loop_entered (TyperPrompt ch # tr) = True"
  "loop_entered (Input u # tr) = loop_entered tr"
  "loop_entered (Handle h p m t tp c k # tr) = loop_entered tr"
  "loop_entered (Print x y # tr) = loop_entered tr"
  "loop_entered (RunCommand cmd # tr) = loop_entered tr"
  "loop_entered (StdinRead # tr) = loop_entered tr"
  "loop_entered (RoleGet n # tr) = loop_entered tr"
  "loop_entered (CheckGet s d co # tr) = loop_entered tr"
  by (simp_all add: loop_entered_def)

subsection \<open>No loop without an exit returns\<close>

lemma interactive_loop_not_returned:
  "snd (interactive_loop env h m t tp c k ls tr) \<noteq> Returned"
  by (induction ls arbitrary: tr)
     (auto simp: handle_user_input_def call_handle_def split: sum.splits)

lemma repl_handle_not_returned:
  "snd (repl_handle env h p m t tp c k ls tr) \<noteq> Returned"
  by (induction ls arbitrary: tr)
     (auto simp: call_handle_def split: sum.splits)

lemma dual_loop_not_returned:
  "snd (dual_loop env h1 h2 m t tp c k n p sp tr) \<noteq> Returned"
  by (induction n arbitrary: p sp tr)
     (auto simp: call_handle_def split: sum.splits)

text \<open>When every completion request is answered, each line the user types is read and
  answered, and the loop is back at its read.\<close>

lemma interactive_loop_awaits:
  assumes ok: "\<forall>x ev. is_completion ev \<longrightarrow> (\<exists>s. respond env (x @ [ev]) = Inr s)"
  shows "snd (interactive_loop env h m t tp c k ls tr) = Awaiting
       \<and> inputs_read (fst (interactive_loop env h m t tp c k ls tr)) = inputs_read tr @ ls
       \<and> length (completions (fst (interactive_loop env h m t tp c k ls tr)))
           = length (completions tr) + length ls"
proof (induction ls arbitrary: tr)
  case Nil
  show ?case by simp
next
  case (Cons u us)
  let ?call = "Handle h (Some u) m t tp c k"
  have "is_completion ?call" by simp
  with ok obtain s where "respond env ((tr @ [Input u]) @ [?call]) = Inr s" by blast
  then have s: "respond env (tr @ [Input u, ?call]) = Inr s" by simp
  have step: "interactive_loop env h m t tp c k (u # us) tr
      = interactive_loop env h m t tp c k us
          (tr @ [Input u, ?call, Print ''You:'' u, Print ''AI:'' s])"
    using s by (simp add: handle_user_input_def call_handle_def)
  show ?case
    unfolding step
    using Cons.IH [of "tr @ [Input u, ?call, Print ''You:'' u, Print ''AI:'' s]"]
    by simp
qed

lemma repl_handle_awaits:
  assumes ok: "\<forall>x ev. is_completion ev \<longrightarrow> (\<exists>s. respond env (x @ [ev]) = Inr s)"
  shows "snd (repl_handle env h p m t tp c k ls tr) = Awaiting
       \<and> inputs_read (fst (repl_handle env h p m t tp c k ls tr)) = inputs_read tr @ ls
       \<and> length (completions (fst (repl_handle env h p m t tp c k ls tr)))
           = length (completions tr) + length ls"
proof (induction ls arbitrary: tr)
  case Nil
  show ?case by simp
next
  case (Cons u us)
  let ?call = "Handle h (Some u) m t tp c k"
  have "is_completion ?call" by simp
  with ok obtain s where "respond env ((tr @ [Input u]) @ [?call]) = Inr s" by blast
  then have s: "respond env (tr @ [Input u, ?call]) = Inr s" by simp
  have step: "repl_handle env h p m t tp c k (u # us) tr
      = repl_handle env h p m t tp c k us (tr @ [Input u, ?call, Print u s])"
    using s by (simp add: call_handle_def)
  show ?case
    unfolding step using Cons.IH [of "tr @ [Input u, ?call, Print u s]"]
    by simp
qed

lemma main_never_returns:
  assumes "interactive_mode a \<or> truthy (repl a)"
  shows "snd (main env a n) \<noteq> Returned"
proof (cases "interactive_mode a")
  case True
  then show ?thesis
    by (simp add: main_def Let_def interactive_loop_not_returned split: sum.splits)
next
  case False
  with assms have r: "truthy (repl a)" by simp
  have rw: "snd (run_with_role env a n p rc tr) \<noteq> Returned" for p rc tr
    using r repl_handle_not_returned [of env "ReplHandler (repl a) rc" p "model a"
        "temperature a" "top_probability a" "repl a" "cache a" "user_lines env" tr]
    by (cases "repl_handle env (ReplHandler (repl a) rc) p (model a) (temperature a)
        (top_probability a) (repl a) (cache a) (user_lines env) tr")
       (auto simp: run_with_role_def split: outcome.splits)
  show ?thesis
    using False rw
    by (auto simp: main_def Let_def split: sum.splits prod.splits)
qed

subsection \<open>Where the confirmation loop's prompt can appear\<close>

lemma interactive_loop_entered:
  "loop_entered (fst (interactive_loop env h m t tp c k ls tr)) = loop_entered tr"
  by (induction ls arbitrary: tr)
     (auto simp: handle_user_input_def call_handle_def split: sum.splits)

lemma repl_handle_entered:
  "loop_entered (fst (repl_handle env h p m t tp c k ls tr)) = loop_entered tr"
  by (induction ls arbitrary: tr)
     (auto simp: call_handle_def split: sum.splits)

lemma dual_loop_entered:
  "loop_entered (fst (dual_loop env h1 h2 m t tp c k n p sp tr)) = loop_entered tr"
  by (induction n arbitrary: p sp tr)
     (auto simp: call_handle_def split: sum.splits)

lemma shell_loop_entered_only_if:
  "loop_entered (fst (shell_loop env sh piped fc m t tp k rs tr))
     \<Longrightarrow> loop_entered tr \<or> (sh \<and> \<not> piped)"
  by (induction rs arbitrary: tr)
     (auto simp: call_handle_def Let_def split: if_splits option.splits sum.splits)

lemma shell_loop_keeps_entered:
  "loop_entered tr \<Longrightarrow> loop_entered (fst (shell_loop env sh piped fc m t tp k rs tr))"
  by (induction rs arbitrary: tr)
     (auto simp: call_handle_def Let_def split: if_splits option.splits sum.splits)

lemma shell_loop_entered_if:
  "sh \<Longrightarrow> \<not> piped \<Longrightarrow> loop_entered (fst (shell_loop env sh piped fc m t tp k (r # rs) tr))"
  by (auto simp: call_handle_def Let_def shell_loop_keeps_entered
        split: option.splits sum.splits)

lemma run_with_role_entered_only_if:
  assumes e: "loop_entered (fst (run_with_role env a n p rc tr))"
  shows "loop_entered tr \<or> (shell a \<and> stdin_isatty env)"
proof -
  let ?first = "(if truthy (repl a)
            then repl_handle env (ReplHandler (repl a) rc)
                   p (model a) (temperature a) (top_probability a) (repl a) (cache a)
                   (user_lines env) tr
            else (tr, Returned))"
  obtain tr1 out1 where r1: "?first = (tr1, out1)" by (cases ?first)
  have t1: "loop_entered tr1 = loop_entered tr"
    using r1 repl_handle_entered [of env "ReplHandler (repl a) rc" p "model a" "temperature a"
        "top_probability a" "repl a" "cache a" "user_lines env" tr]
    by (auto split: if_splits)
  obtain tr2 out2 fc where r2: "chat_or_default env a n p rc tr1 = ((tr2, out2), fc)"
    by (cases "chat_or_default env a n p rc tr1") auto
  have t2: "loop_entered tr2 = loop_entered tr1"
    using r2 dual_loop_entered [of env "ChatHandler (chat a) rc"
        "ChatHandler (Some ''second_ai'') rc" "model a" "temperature a" "top_probability a"
        "chat a" "cache a" n p "second_ai_prompt a" tr1]
    by (auto simp: chat_or_default_def handle_second_ai_def call_handle_def
          split: if_splits sum.splits)
  show ?thesis
  proof (cases "out1 = Returned \<and> out2 = Returned")
    case True
    then have "run_with_role env a n p rc tr
        = shell_loop env (shell a) (stdin_passed env) fc
            (model a) (temperature a) (top_probability a) (cache a) (replies env) tr2"
      using r1 r2 unfolding run_with_role_def by simp
    with e shell_loop_entered_only_if [of env "shell a" "stdin_passed env" fc "model a"
        "temperature a" "top_probability a" "cache a" "replies env" tr2] t1 t2
    show ?thesis by (auto simp: stdin_passed_def)
  next
    case False
    then have "fst (run_with_role env a n p rc tr) = tr1
        \<or> fst (run_with_role env a n p rc tr) = tr2"
      using r1 r2 unfolding run_with_role_def by (auto split: outcome.splits)
    with e t1 t2 show ?thesis by auto
  qed
qed

lemma main_entered_only_if:
  "loop_entered (fst (main env a n)) \<Longrightarrow> shell a \<and> stdin_isatty env"
  by (auto simp: main_def Let_def read_stdin_def resolve_role_def interactive_loop_entered
        split: if_splits sum.splits dest!: run_with_role_entered_only_if)

subsection \<open>The single-shot path\<close>

text \<open>On a terminal, with no interactive mode, no REPL and no chat, once validation has
  passed, the role is resolved and the default handler has answered, \<^verbatim>\<open>main\<close> is at the
  confirmation loop with the answer in \<^verbatim>\<open>full_completion\<close>.\<close>

lemma main_single_shot:
  assumes "stdin_isatty env" and "\<not> interactive_mode a"
    and "sum_flags (shell a) (describe_shell a) (code a) \<le> 1"
    and "truthy (prompt a) \<or> editor a" and "\<not> truthy (repl a)" and "\<not> truthy (chat a)"
    and "resolve_role env a [] = (tr1, Inr role_class)"
    and "respond env (tr1 @ [Handle (DefaultHandler role_class) (prompt a) (model a)
            (temperature a) (top_probability a) None (cache a)]) = Inr cmd"
  shows "main env a n
       = shell_loop env (shell a) False (Some cmd) (model a) (temperature a)
           (top_probability a) (cache a) (replies env)
           (tr1 @ [Handle (DefaultHandler role_class) (prompt a) (model a)
                     (temperature a) (top_probability a) None (cache a)])"
  using assms
  by (auto simp: main_def Let_def read_stdin_def effective_prompt_def stdin_passed_def
        run_with_role_def chat_or_default_def call_handle_def
      simp del: shell_loop.simps)

lemma shell_loop_describe:
  assumes "sh" and "\<not> piped" and "typer_prompt env reply = D"
    and "respond env (tr @ [TyperPrompt D,
            Handle (DefaultHandler (get_role env DESCRIBE_SHELL)) (Some cmd) m t tp None k])
         = Inr answer"
  shows "shell_loop env sh piped (Some cmd) m t tp k (reply # rest) tr
       = shell_loop env sh piped (Some cmd) m t tp k rest
           (tr @ [TyperPrompt D,
                  Handle (DefaultHandler (get_role env DESCRIBE_SHELL)) (Some cmd) m t tp None k])"
  using assms by (simp add: call_handle_def del: shell_loop.simps add: shell_loop.simps(2))

lemma shell_loop_piped:
  "shell_loop env sh True fc m t tp k rs tr = (tr, Returned)"
  by (cases rs) simp_all

subsection \<open>The concrete handlers answer every request\<close>

lemma demo_respond_answers:
  "is_completion ev \<Longrightarrow> \<exists>s. respond (demo_env tty text lines answers) (x @ [ev]) = Inr s"
proof (cases ev)
  case (Handle h p m t tp c k)
  then show ?thesis by (cases h) (simp_all add: demo_env_def demo_respond_def)
qed simp_all

subsection \<open>Describe when a command was generated\<close>

text \<open>While the confirmation loop runs with a shell command in \<^verbatim>\<open>full_completion\<close>, the
  answer \<^verbatim>\<open>d\<close> makes one completion request, to the default handler with the
  describe-shell role and the command as the prompt; when that request is answered the
  loop is at its test again, with the same command, and goes on with the user's next
  answer. On the single-shot path the command is the answer of the default handler to
  the user's prompt.\<close>

lemma describe_on_single_shot_path:
  "(sh \<and> \<not> piped \<and> typer_prompt env reply = D
      \<and> respond env (tr @ [TyperPrompt D,
            Handle (DefaultHandler (get_role env DESCRIBE_SHELL)) (Some cmd) m t tp None k])
          = Inr answer
    \<longrightarrow> shell_loop env sh piped (Some cmd) m t tp k (reply # rest) tr
        = shell_loop env sh piped (Some cmd) m t tp k rest
            (tr @ [TyperPrompt D,
                   Handle (DefaultHandler (get_role env DESCRIBE_SHELL)) (Some cmd)
                     m t tp None k]))
   \<and> (shell a \<and> stdin_isatty env \<and> \<not> interactive_mode a
        \<and> sum_flags (shell a) (describe_shell a) (code a) \<le> 1
        \<and> (truthy (prompt a) \<or> editor a) \<and> \<not> truthy (repl a) \<and> \<not> truthy (chat a)
        \<and> resolve_role env a [] = (tr1, Inr role_class)
        \<and> respond env (tr1 @ [Handle (DefaultHandler role_class) (prompt a) (model a)
              (temperature a) (top_probability a) None (cache a)]) = Inr cmd
        \<and> replies env = reply # rest \<and> typer_prompt env reply = D
        \<and> respond env (tr1 @ [Handle (DefaultHandler role_class) (prompt a) (model a)
              (temperature a) (top_probability a) None (cache a),
              TyperPrompt D,
              Handle (DefaultHandler (get_role env DESCRIBE_SHELL)) (Some cmd) (model a)
                (temperature a) (top_probability a) None (cache a)]) = Inr answer
      \<longrightarrow> main env a n
          = shell_loop env True False (Some cmd) (model a) (temperature a)
              (top_probability a) (cache a) rest
              (tr1 @ [Handle (DefaultHandler role_class) (prompt a) (model a)
                        (temperature a) (top_probability a) None (cache a),
                      TyperPrompt D,
                      Handle (DefaultHandler (get_role env DESCRIBE_SHELL)) (Some cmd) (model a)
                        (temperature a) (top_probability a) None (cache a)]))"
proof (intro conjI impI)
  assume "sh \<and> \<not> piped \<and> typer_prompt env reply = D
      \<and> respond env (tr @ [TyperPrompt D,
            Handle (DefaultHandler (get_role env DESCRIBE_SHELL)) (Some cmd) m t tp None k])
          = Inr answer"
  then show "shell_loop env sh piped (Some cmd) m t tp k (reply # rest) tr
        = shell_loop env sh piped (Some cmd) m t tp k rest
            (tr @ [TyperPrompt D,
                   Handle (DefaultHandler (get_role env DESCRIBE_SHELL)) (Some cmd)
                     m t tp None k])"
    by (intro shell_loop_describe) blast+
next
  let ?H1 = "Handle (DefaultHandler role_class) (prompt a) (model a)
              (temperature a) (top_probability a) None (cache a)"
  let ?H2 = "Handle (DefaultHandler (get_role env DESCRIBE_SHELL)) (Some cmd) (model a)
                (temperature a) (top_probability a) None (cache a)"
  assume h: "shell a \<and> stdin_isatty env \<and> \<not> interactive_mode a
        \<and> sum_flags (shell a) (describe_shell a) (code a) \<le> 1
        \<and> (truthy (prompt a) \<or> editor a) \<and> \<not> truthy (repl a) \<and> \<not> truthy (chat a)
        \<and> resolve_role env a [] = (tr1, Inr role_class)
        \<and> respond env (tr1 @ [?H1]) = Inr cmd
        \<and> replies env = reply # rest \<and> typer_prompt env reply = D
        \<and> respond env (tr1 @ [?H1, TyperPrompt D, ?H2]) = Inr answer"
  from h have m: "main env a n
       = shell_loop env (shell a) False (Some cmd) (model a) (temperature a)
           (top_probability a) (cache a) (replies env) (tr1 @ [?H1])"
    by (intro main_single_shot) blast+
  from h have r: "respond env ((tr1 @ [?H1]) @ [TyperPrompt D, ?H2]) = Inr answer"
    by simp
  from h have d: "typer_prompt env reply = D" by blast
  have "shell_loop env True False (Some cmd) (model a) (temperature a)
           (top_probability a) (cache a) (reply # rest) (tr1 @ [?H1])
       = shell_loop env True False (Some cmd) (model a) (temperature a)
           (top_probability a) (cache a) rest ((tr1 @ [?H1]) @ [TyperPrompt D, ?H2])"
    by (rule shell_loop_describe [OF TrueI _ d r]) simp
  with m h show "main env a n
          = shell_loop env True False (Some cmd) (model a) (temperature a)
              (top_probability a) (cache a) rest (tr1 @ [?H1, TyperPrompt D, ?H2])"
    by (simp del: shell_loop.simps)
qed

lemma describe_on_single_shot_path_example:
  "typer_prompt (demo_env True [] [] [Some D]) (Some D) = D
   \<and> replies (demo_env True [] [] [Some D]) = [Some D]
   \<and> main (demo_env True [] [] [Some D])
       (no_args\<lparr>prompt := Some ''list files'', shell := True\<rparr>) 0
     = ([CheckGet True False False,
         Handle (DefaultHandler (demo_get_role SHELL)) (Some ''list files'')
           ''gpt-3.5-turbo'' (1 / 10) 1 None True,
         TyperPrompt D,
         Handle (DefaultHandler (demo_get_role DESCRIBE_SHELL)) (Some ''ls'')
           ''gpt-3.5-turbo'' (1 / 10) 1 None True],
        Awaiting)"
proof -
  let ?e = "demo_env True [] [] [Some D]"
  let ?a = "no_args\<lparr>prompt := Some ''list files'', shell := True\<rparr>"
  let ?tr1 = "[CheckGet True False False]"
  let ?H1 = "Handle (DefaultHandler (demo_get_role SHELL)) (prompt ?a) (model ?a)
              (temperature ?a) (top_probability ?a) None (cache ?a)"
  let ?H2 = "Handle (DefaultHandler (get_role ?e DESCRIBE_SHELL)) (Some ''ls'') (model ?a)
                (temperature ?a) (top_probability ?a) None (cache ?a)"
  have t: "typer_prompt ?e (Some D) = D" by (simp add: typer_prompt_def)
  have rp: "replies ?e = [Some D]" by (simp add: demo_env_def)
  have h: "shell ?a \<and> stdin_isatty ?e \<and> \<not> interactive_mode ?a
        \<and> sum_flags (shell ?a) (describe_shell ?a) (code ?a) \<le> 1
        \<and> (truthy (prompt ?a) \<or> editor ?a) \<and> \<not> truthy (repl ?a) \<and> \<not> truthy (chat ?a)
        \<and> resolve_role ?e ?a [] = (?tr1, Inr (demo_get_role SHELL))
        \<and> respond ?e (?tr1 @ [?H1]) = Inr ''ls''
        \<and> replies ?e = Some D # [] \<and> typer_prompt ?e (Some D) = D
        \<and> respond ?e (?tr1 @ [?H1, TyperPrompt D, ?H2]) = Inr ''ok''"
    by (simp add: no_args_def demo_env_def demo_respond_def demo_get_role_def sum_flags_def
          resolve_role_def check_get_def typer_prompt_def)
  note c6 = describe_on_single_shot_path
      [of True False ?e "Some D" "[]" "''ls''" "model ?a" "temperature ?a"
          "top_probability ?a" "cache ?a" "''ok''" "[]" ?a ?tr1 "demo_get_role SHELL" 0]
  from c6 h have "main ?e ?a 0
      = shell_loop ?e True False (Some ''ls'') (model ?a) (temperature ?a)
          (top_probability ?a) (cache ?a) [] (?tr1 @ [?H1, TyperPrompt D, ?H2])"
    by blast
  then have "main ?e ?a 0 = (?tr1 @ [?H1, TyperPrompt D, ?H2], Awaiting)"
    by simp
  then have "main ?e ?a 0
     = ([CheckGet True False False,
         Handle (DefaultHandler (demo_get_role SHELL)) (Some ''list files'')
           ''gpt-3.5-turbo'' (1 / 10) 1 None True,
         TyperPrompt D,
         Handle (DefaultHandler (demo_get_role DESCRIBE_SHELL)) (Some ''ls'')
           ''gpt-3.5-turbo'' (1 / 10) 1 None True],
        Awaiting)"
    by (simp add: no_args_def demo_env_def)
  with t rp show ?thesis by blast
qed

section \<open>The claims\<close>

text \<open>
  C1. One-shot mode with a second prompt given up front: the specification has two
  completions, the primary handler with the initial prompt and then the secondary
  handler with \<^verbatim>\<open>second_ai_prompt\<close>, each under its own chat id. The run below has
  \<^verbatim>\<open>--chat c1 --second-ai --second-ai-prompt hi\<close> and the prompt \<^verbatim>\<open>hello\<close>. Its trace holds
  one completion request only: the handler of chat \<^verbatim>\<open>c1\<close> is given \<^verbatim>\<open>hi\<close> under the chat
  id \<^verbatim>\<open>c1\<close>. The prompt \<^verbatim>\<open>hello\<close> is sent to no handler and no handler of a second chat
  id is called.
\<close>

theorem C1_one_shot_makes_one_completion:
  "main (demo_env True [] [] [])
     (no_args\<lparr>prompt := Some ''hello'', chat := Some ''c1'', second_ai := True,
        second_ai_prompt := Some ''hi''\<rparr>) 3
   = ([CheckGet False False False,
       Handle (ChatHandler (Some ''c1'') (demo_get_role DEFAULT)) (Some ''hi'')
         ''gpt-3.5-turbo'' (1 / 10) 1 (Some ''c1'') True],
      Returned)"
  by (simp add: run_defs demo_defs)

text \<open>
  C2. Looping mode: the specification has the primary's answer become the secondary's
  next prompt and the other way round. The run below has \<^verbatim>\<open>--chat c1 --second-ai\<close>, the
  prompt \<^verbatim>\<open>hello\<close>, and is observed for two rounds. In the second round the handler of
  chat \<^verbatim>\<open>c1\<close> is given its own first answer \<^verbatim>\<open>A(c1,hello)\<close>, and the handler of chat
  \<^verbatim>\<open>second_ai\<close> is given its own first answer \<^verbatim>\<open>A(second_ai,)\<close>: neither handler ever
  receives the other's answer. The two handlers do run under the two chat ids \<^verbatim>\<open>c1\<close>
  and \<^verbatim>\<open>second_ai\<close>.
\<close>

theorem C2_each_handler_is_fed_its_own_answer:
  "main (demo_env True [] [] [])
     (no_args\<lparr>prompt := Some ''hello'', chat := Some ''c1'', second_ai := True\<rparr>) 2
   = ([CheckGet False False False,
       Handle (ChatHandler (Some ''c1'') (demo_get_role DEFAULT)) (Some ''hello'')
         ''gpt-3.5-turbo'' (1 / 10) 1 (Some ''c1'') True,
       Print ''First AI:'' ''A(c1,hello)'',
       Handle (ChatHandler (Some ''second_ai'') (demo_get_role DEFAULT)) None
         ''gpt-3.5-turbo'' (1 / 10) 1 (Some ''second_ai'') True,
       Print ''Second AI:'' ''A(second_ai,)'',
       Handle (ChatHandler (Some ''c1'') (demo_get_role DEFAULT)) (Some ''A(c1,hello)'')
         ''gpt-3.5-turbo'' (1 / 10) 1 (Some ''c1'') True,
       Print ''First AI:'' ''A(c1,A(c1,hello))'',
       Handle (ChatHandler (Some ''second_ai'') (demo_get_role DEFAULT))
         (Some ''A(second_ai,)'') ''gpt-3.5-turbo'' (1 / 10) 1 (Some ''second_ai'') True,
       Print ''Second AI:'' ''A(second_ai,A(second_ai,))''],
      Running)"
  by (simp add: run_defs demo_defs numeral_2_eq_2)

text \<open>
  C3. The confirmation loop: the specification has Execute and Abort end the loop. The
  run below has \<^verbatim>\<open>--shell\<close>, the prompt \<^verbatim>\<open>list files\<close>, a terminal, and the answers
  \<^verbatim>\<open>a\<close>, \<^verbatim>\<open>e\<close>, \<^verbatim>\<open>e\<close>. After \<^verbatim>\<open>a\<close> the loop asks again; after the first \<^verbatim>\<open>e\<close> the command
  is run and the loop asks again; after the second \<^verbatim>\<open>e\<close> the command is run a second
  time, and the program is at the prompt once more instead of having returned.
\<close>

theorem C3_execute_and_abort_ask_again:
  "main (demo_env True [] [] [Some A, Some E, Some E])
     (no_args\<lparr>prompt := Some ''list files'', shell := True\<rparr>) 0
   = ([CheckGet True False False,
       Handle (DefaultHandler (demo_get_role SHELL)) (Some ''list files'')
         ''gpt-3.5-turbo'' (1 / 10) 1 None True,
       TyperPrompt A,
       TyperPrompt E, RunCommand ''ls'',
       TyperPrompt E, RunCommand ''ls''],
      Awaiting)"
  by (simp add: run_defs demo_defs)

text \<open>
  C4. More than one of the three mode flags: the claim has the run fail with the
  conflicting-mode error before any completion request, for every request. Two checks
  come first in \<^verbatim>\<open>main\<close>. The interactive loop (line 163) runs before any validation
  and never reaches the check; the missing-prompt check (line 178) raises first when
  there is no prompt. As amended: when interactive mode is off and a prompt is at hand
  (a prompt argument, piped input, the editor flag or a REPL), a request with more than
  one mode flag fails with the conflicting-mode error, and the trace up to there holds
  at most the read of standard input: no role was resolved and no completion requested.
\<close>

theorem C4_conflicting_flags_fail_first:
  assumes "\<not> interactive_mode a"
    and "truthy (prompt a) \<or> \<not> stdin_isatty env \<or> editor a \<or> truthy (repl a)"
    and "sum_flags (shell a) (describe_shell a) (code a) > 1"
  shows "main env a n = (read_stdin env a, Raised ConflictingModeError)
       \<and> completions (read_stdin env a) = []
       \<and> filter is_role_resolution (read_stdin env a) = []"
  using assms
  by (auto simp add: main_def read_stdin_def effective_prompt_def stdin_passed_def
        completions_def)

theorem C4_conflicting_flags_fail_first_witness:
  "\<not> interactive_mode (no_args\<lparr>prompt := Some ''hi'', shell := True, code := True\<rparr>)
   \<and> sum_flags True False True > 1
   \<and> main (demo_env True [] [] [])
        (no_args\<lparr>prompt := Some ''hi'', shell := True, code := True\<rparr>) 0
      = ([], Raised ConflictingModeError)"
proof -
  let ?a = "no_args\<lparr>prompt := Some ''hi'', shell := True, code := True\<rparr>"
  let ?e = "demo_env True [] [] []"
  have h1: "\<not> interactive_mode ?a" by (simp add: no_args_def)
  have h2: "truthy (prompt ?a) \<or> \<not> stdin_isatty ?e \<or> editor ?a \<or> truthy (repl ?a)"
    by (simp add: no_args_def)
  have h3: "sum_flags (shell ?a) (describe_shell ?a) (code ?a) > 1"
    by (simp add: no_args_def sum_flags_def)
  have h4: "sum_flags True False True > 1" by (simp add: sum_flags_def)
  have r: "read_stdin ?e ?a = []"
    by (simp add: read_stdin_def stdin_passed_def demo_env_def)
  from C4_conflicting_flags_fail_first [OF h1 h2 h3, of 0]
  have "main ?e ?a 0 = (read_stdin ?e ?a, Raised ConflictingModeError)"
    by blast
  with r h1 h4 show ?thesis by simp
qed

text \<open>The claim as stated fails twice over. With \<^verbatim>\<open>--shell --code\<close> and no prompt, on a
  terminal, the error is the missing-parameter one. With \<^verbatim>\<open>--shell --code --interactive
  --role poet\<close> and the line \<^verbatim>\<open>hi\<close> typed, a completion request is made and no error is
  raised.\<close>

theorem C4_counterexample:
  "sum_flags True False True > 1
   \<and> main (demo_env True [] [] []) (no_args\<lparr>shell := True, code := True\<rparr>) 0
       = ([], Raised MissingParameter)
   \<and> MissingParameter \<noteq> ConflictingModeError
   \<and> main (demo_env True [] [''hi''] [])
        (no_args\<lparr>shell := True, code := True, interactive_mode := True,
           role := Some ''poet''\<rparr>) 0
       = ([RoleGet (Some ''poet''), Input ''hi'',
           Handle (ChatHandler None poet) (Some ''hi'') ''gpt-3.5-turbo'' (1 / 10) 1 None True,
           Print ''You:'' ''hi'', Print ''AI:'' ''A(,hi)''],
          Awaiting)"
  by (simp add: run_defs demo_defs ConflictingModeError_def)

text \<open>
  C5. When the confirmation loop is entered: the claim ties it to the resolved role's
  expected output kind. The test of the loop (line 258) reads the \<^verbatim>\<open>shell\<close> flag, not the
  role, and the loop is reached only on the paths that get to line 258. As amended: the
  loop is entered only if the shell flag is set and standard input is a terminal, so
  never on piped input, whatever the other flags; and on a single-shot request (no
  interactive mode, no REPL, no chat) that passes validation and whose completion
  returns, with the shell flag set, a terminal and an answer to read, the loop is
  entered, whatever the output kind of the resolved role.
\<close>

theorem C5_loop_follows_the_shell_flag:
  "(loop_entered (fst (main env a n)) \<longrightarrow> shell a \<and> stdin_isatty env)
   \<and> (shell a \<and> stdin_isatty env \<and> \<not> interactive_mode a
        \<and> sum_flags (shell a) (describe_shell a) (code a) \<le> 1
        \<and> (truthy (prompt a) \<or> editor a) \<and> \<not> truthy (repl a) \<and> \<not> truthy (chat a)
        \<and> resolve_role env a [] = (tr1, Inr role_class)
        \<and> respond env (tr1 @ [Handle (DefaultHandler role_class) (prompt a) (model a)
              (temperature a) (top_probability a) None (cache a)]) = Inr cmd
        \<and> replies env \<noteq> []
      \<longrightarrow> loop_entered (fst (main env a n)))"
proof (intro conjI impI)
  assume "loop_entered (fst (main env a n))"
  then show "shell a" and "stdin_isatty env"
    using main_entered_only_if [of env a n] by simp_all
next
  assume h: "shell a \<and> stdin_isatty env \<and> \<not> interactive_mode a
        \<and> sum_flags (shell a) (describe_shell a) (code a) \<le> 1
        \<and> (truthy (prompt a) \<or> editor a) \<and> \<not> truthy (repl a) \<and> \<not> truthy (chat a)
        \<and> resolve_role env a [] = (tr1, Inr role_class)
        \<and> respond env (tr1 @ [Handle (DefaultHandler role_class) (prompt a) (model a)
              (temperature a) (top_probability a) None (cache a)]) = Inr cmd
        \<and> replies env \<noteq> []"
  then obtain r rs where rs: "replies env = r # rs" by (cases "replies env") auto
  from h have "main env a n
       = shell_loop env (shell a) False (Some cmd) (model a) (temperature a)
           (top_probability a) (cache a) (replies env)
           (tr1 @ [Handle (DefaultHandler role_class) (prompt a) (model a)
                     (temperature a) (top_probability a) None (cache a)])"
    by (intro main_single_shot) blast+
  with h rs show "loop_entered (fst (main env a n))"
    by (simp del: shell_loop.simps add: shell_loop_entered_if)
qed

theorem C5_loop_follows_the_shell_flag_witness:
  "expected_output_kind poet = FreeText
   \<and> resolve_role (demo_env True [] [] [Some A])
        (no_args\<lparr>prompt := Some ''hi'', shell := True, role := Some ''poet''\<rparr>) []
       = ([RoleGet (Some ''poet'')], Inr poet)
   \<and> loop_entered (fst (main (demo_env True [] [] [Some A])
           (no_args\<lparr>prompt := Some ''hi'', shell := True, role := Some ''poet''\<rparr>) 0))
   \<and> shell (no_args\<lparr>prompt := Some ''hi'', shell := True, role := Some ''poet''\<rparr>)
   \<and> stdin_isatty (demo_env True [] [] [Some A])"
proof -
  let ?e = "demo_env True [] [] [Some A]"
  let ?a = "no_args\<lparr>prompt := Some ''hi'', shell := True, role := Some ''poet''\<rparr>"
  have k: "expected_output_kind poet = FreeText" by (simp add: poet_def)
  have rr: "resolve_role ?e ?a [] = ([RoleGet (Some ''poet'')], Inr poet)"
    by (simp add: resolve_role_def no_args_def demo_env_def demo_registry_def)
  have h: "shell ?a \<and> stdin_isatty ?e \<and> \<not> interactive_mode ?a
        \<and> sum_flags (shell ?a) (describe_shell ?a) (code ?a) \<le> 1
        \<and> (truthy (prompt ?a) \<or> editor ?a) \<and> \<not> truthy (repl ?a) \<and> \<not> truthy (chat ?a)
        \<and> resolve_role ?e ?a [] = ([RoleGet (Some ''poet'')], Inr poet)
        \<and> respond ?e ([RoleGet (Some ''poet'')] @
              [Handle (DefaultHandler poet) (prompt ?a) (model ?a) (temperature ?a)
                 (top_probability ?a) None (cache ?a)]) = Inr ''ok''
        \<and> replies ?e \<noteq> []"
    unfolding rr
    by (simp add: no_args_def demo_env_def demo_respond_def poet_def sum_flags_def)
  note c5 = C5_loop_follows_the_shell_flag
              [of ?e ?a 0 "[RoleGet (Some ''poet'')]" poet "''ok''"]
  from c5 h have entered: "loop_entered (fst (main ?e ?a 0))" by blast
  from c5 entered have "shell ?a \<and> stdin_isatty ?e" by blast
  with entered rr k show ?thesis by blast
qed

text \<open>The claim as stated fails in both directions. With \<^verbatim>\<open>--shell --role poet\<close> on a
  terminal the resolved role expects free text, and the loop is entered all the same.
  With \<^verbatim>\<open>--shell --chat c1\<close> on a terminal the resolved role expects a shell command, and
  the program is inside the two-handler loop, which never gets to the confirmation
  loop.\<close>

theorem C5_counterexample:
  "main (demo_env True [] [] [Some A])
     (no_args\<lparr>prompt := Some ''hi'', shell := True, role := Some ''poet''\<rparr>) 0
     = ([RoleGet (Some ''poet''),
         Handle (DefaultHandler poet) (Some ''hi'') ''gpt-3.5-turbo'' (1 / 10) 1 None True,
         TyperPrompt A],
        Awaiting)
   \<and> expected_output_kind poet = FreeText
   \<and> main (demo_env True [] [] [Some A])
      (no_args\<lparr>prompt := Some ''hi'', shell := True, chat := Some ''c1''\<rparr>) 1
     = ([CheckGet True False False,
         Handle (ChatHandler (Some ''c1'') (demo_get_role SHELL)) (Some ''hi'')
           ''gpt-3.5-turbo'' (1 / 10) 1 (Some ''c1'') True,
         Print ''First AI:'' ''A(c1,hi)'',
         Handle (ChatHandler (Some ''second_ai'') (demo_get_role SHELL)) None
           ''gpt-3.5-turbo'' (1 / 10) 1 (Some ''second_ai'') True,
         Print ''Second AI:'' ''A(second_ai,)''],
        Running)
   \<and> expected_output_kind (demo_get_role SHELL) = ShellCommand"
  by (simp add: run_defs demo_defs)

text \<open>
  C6. Describe in the confirmation loop: the claim has the answer \<^verbatim>\<open>d\<close> issue a completion
  request with the describe-shell role and the previously generated shell command as
  the prompt, after which the loop repeats. The run below has
  \<^verbatim>\<open>--shell --chat c1 --second-ai --second-ai-prompt hi\<close>, a prompt, a terminal, and the
  answer \<^verbatim>\<open>d\<close>. The chat branch makes its one request and falls through to the
  confirmation loop, which is entered; no shell command was generated on this path, and
  the Describe branch reads \<^verbatim>\<open>full_completion\<close>, which only the \<^verbatim>\<open>else\<close> branch of line 249
  assigns. The trace holds no request to a default handler, and the run ends with the
  unbound-variable error instead of going back to the prompt.
\<close>

theorem C6_describe_reads_an_unassigned_variable:
  "main (demo_env True [] [] [Some D])
     (no_args\<lparr>prompt := Some ''list files'', shell := True, chat := Some ''c1'',
        second_ai := True, second_ai_prompt := Some ''hi''\<rparr>) 0
   = ([CheckGet True False False,
       Handle (ChatHandler (Some ''c1'') (demo_get_role SHELL)) (Some ''hi'')
         ''gpt-3.5-turbo'' (1 / 10) 1 (Some ''c1'') True,
       TyperPrompt D],
      Raised UnboundLocalError)"
  by (simp add: run_defs demo_defs)

text \<open>
  C7. The interactive loop and the REPL are unbounded. Whatever lines the user types,
  neither loop returns: a run ends only blocked at the next read or with an exception
  raised by a collaborator, and \<^verbatim>\<open>main\<close> never returns in interactive mode or with a
  REPL. When every completion request is answered, every line typed is read and
  answered by one completion, and the loop is waiting for the next line: no value of a
  line ends it. The interactive loop is that of lines 166 to 176; the REPL loop is the
  one the specification describes.
\<close>

theorem C7_loops_have_no_exit:
  "snd (interactive_loop env h m t tp c k ls tr) \<noteq> Returned
   \<and> snd (repl_handle env h p m t tp c k ls tr) \<noteq> Returned
   \<and> (interactive_mode a \<or> truthy (repl a) \<longrightarrow> snd (main env a n) \<noteq> Returned)
   \<and> ((\<forall>x ev. is_completion ev \<longrightarrow> (\<exists>s. respond env (x @ [ev]) = Inr s)) \<longrightarrow>
        snd (interactive_loop env h m t tp c k ls tr) = Awaiting
        \<and> inputs_read (fst (interactive_loop env h m t tp c k ls tr)) = inputs_read tr @ ls
        \<and> length (completions (fst (interactive_loop env h m t tp c k ls tr)))
            = length (completions tr) + length ls
        \<and> snd (repl_handle env h p m t tp c k ls tr) = Awaiting
        \<and> inputs_read (fst (repl_handle env h p m t tp c k ls tr)) = inputs_read tr @ ls
        \<and> length (completions (fst (repl_handle env h p m t tp c k ls tr)))
            = length (completions tr) + length ls)"
  using interactive_loop_not_returned [of env h m t tp c k ls tr]
    repl_handle_not_returned [of env h p m t tp c k ls tr]
    main_never_returns [of a env n]
    interactive_loop_awaits [of env h m t tp c k ls tr]
    repl_handle_awaits [of env h p m t tp c k ls tr]
  by blast

theorem C7_loops_have_no_exit_witness:
  "interactive_mode (no_args\<lparr>interactive_mode := True, role := Some ''poet''\<rparr>)
   \<and> snd (main (demo_env True [] [''hi'', ''exit''] [])
            (no_args\<lparr>interactive_mode := True, role := Some ''poet''\<rparr>) 0) \<noteq> Returned
   \<and> snd (interactive_loop (demo_env True [] [''hi'', ''exit''] []) (ChatHandler None poet)
            ''gpt-3.5-turbo'' (1 / 10) 1 None True [''hi'', ''exit''] []) = Awaiting
   \<and> inputs_read (fst (interactive_loop (demo_env True [] [''hi'', ''exit''] [])
            (ChatHandler None poet) ''gpt-3.5-turbo'' (1 / 10) 1 None True [''hi'', ''exit''] []))
       = [''hi'', ''exit'']
   \<and> length (completions (fst (interactive_loop (demo_env True [] [''hi'', ''exit''] [])
            (ChatHandler None poet) ''gpt-3.5-turbo'' (1 / 10) 1 None True [''hi'', ''exit''] [])))
       = 2
   \<and> snd (repl_handle (demo_env True [] [''hi'', ''exit''] []) (ChatHandler None poet) None
            ''gpt-3.5-turbo'' (1 / 10) 1 None True [''hi'', ''exit''] []) = Awaiting"
proof -
  let ?e = "demo_env True [] [''hi'', ''exit''] []"
  let ?a = "no_args\<lparr>interactive_mode := True, role := Some ''poet''\<rparr>"
  let ?h = "ChatHandler None poet"
  let ?ls = "[''hi'', ''exit'']"
  have i: "interactive_mode ?a" by (simp add: no_args_def)
  have ok: "\<forall>x ev. is_completion ev \<longrightarrow> (\<exists>s. respond ?e (x @ [ev]) = Inr s)"
    using demo_respond_answers by blast
  note c7 = C7_loops_have_no_exit
              [of ?e ?h "''gpt-3.5-turbo''" "1 / 10" 1 None True ?ls "[]" None ?a 0]
  from c7 i have m: "snd (main ?e ?a 0) \<noteq> Returned" by blast
  from c7 ok have l:
    "snd (interactive_loop ?e ?h ''gpt-3.5-turbo'' (1 / 10) 1 None True ?ls []) = Awaiting
     \<and> inputs_read (fst (interactive_loop ?e ?h ''gpt-3.5-turbo'' (1 / 10) 1 None True ?ls []))
         = inputs_read [] @ ?ls
     \<and> length (completions
                 (fst (interactive_loop ?e ?h ''gpt-3.5-turbo'' (1 / 10) 1 None True ?ls [])))
         = length (completions []) + length ?ls
     \<and> snd (repl_handle ?e ?h None ''gpt-3.5-turbo'' (1 / 10) 1 None True ?ls []) = Awaiting"
    by blast
  have n1: "inputs_read [] @ ?ls = ?ls" by simp
  have n2: "length (completions []) + length ?ls = 2" by simp
  from l i m show ?thesis unfolding n1 n2 by blast
qed

text \<open>
  C8. No prompt, no editor, no REPL, no interactive mode: the claim has the run fail
  with the missing-parameter error for every such invocation. When standard input is
  piped, line 161 builds the prompt from it, and the text is never empty (it holds the
  two newlines), so the check of line 178 passes. As amended: for every such invocation
  on a terminal the run fails with the missing-parameter error, and its trace is empty:
  no role was resolved and no completion requested. An absent prompt or REPL option is
  one that is \<^verbatim>\<open>None\<close> or empty.
\<close>

theorem C8_missing_prompt_on_a_terminal:
  assumes "stdin_isatty env" and "\<not> truthy (prompt a)" and "\<not> editor a"
    and "\<not> truthy (repl a)" and "\<not> interactive_mode a"
  shows "main env a n = ([], Raised MissingParameter)"
  using assms by (simp add: main_def read_stdin_def effective_prompt_def stdin_passed_def)

theorem C8_missing_prompt_on_a_terminal_witness:
  "stdin_isatty (demo_env True [] [] []) \<and> \<not> truthy (prompt no_args) \<and> \<not> editor no_args
   \<and> \<not> truthy (repl no_args) \<and> \<not> interactive_mode no_args
   \<and> main (demo_env True [] [] []) no_args 0 = ([], Raised MissingParameter)"
proof -
  have h1: "stdin_isatty (demo_env True [] [] [])" by (simp add: demo_env_def)
  have h2: "\<not> truthy (prompt no_args)" by (simp add: no_args_def)
  have h3: "\<not> editor no_args" by (simp add: no_args_def)
  have h4: "\<not> truthy (repl no_args)" by (simp add: no_args_def)
  have h5: "\<not> interactive_mode no_args" by (simp add: no_args_def)
  from C8_missing_prompt_on_a_terminal [OF h1 h2 h3 h4 h5] h1 h2 h3 h4 h5
  show ?thesis by blast
qed

text \<open>The claim as stated fails on piped input: with no argument at all and the text
  \<^verbatim>\<open>data\<close> on standard input, the run resolves the default role, sends the text and the
  two newlines to the default handler, and returns.\<close>

theorem C8_counterexample:
  "prompt no_args = None \<and> \<not> editor no_args \<and> repl no_args = None
   \<and> \<not> interactive_mode no_args
   \<and> main (demo_env False ''data'' [] []) no_args 0
     = ([StdinRead, CheckGet False False False,
         Handle (DefaultHandler (demo_get_role DEFAULT))
           (Some (''data'' @ [CHR 0x0A, CHR 0x0A])) ''gpt-3.5-turbo'' (1 / 10) 1 None True],
        Returned)"
  by (simp add: run_defs demo_defs)

text \<open>
  C9. The command given to the executor is a defined value, and the confirmation loop
  is not reached on a path that skips the default handler. The run below has
  \<^verbatim>\<open>--shell --chat c1 --second-ai --second-ai-prompt hi\<close>, a prompt, a terminal, and the
  answer \<^verbatim>\<open>e\<close>. The chat branch makes its one request and falls through to the
  confirmation loop; the loop is entered, and the Execute branch reads
  \<^verbatim>\<open>full_completion\<close>, which only the \<^verbatim>\<open>else\<close> branch of line 249 assigns: the run ends with
  the unbound-variable error instead of running a command.
\<close>

theorem C9_execute_reads_an_unassigned_variable:
  "main (demo_env True [] [] [Some E])
     (no_args\<lparr>prompt := Some ''list files'', shell := True, chat := Some ''c1'',
        second_ai := True, second_ai_prompt := Some ''hi''\<rparr>) 0
   = ([CheckGet True False False,
       Handle (ChatHandler (Some ''c1'') (demo_get_role SHELL)) (Some ''hi'')
         ''gpt-3.5-turbo'' (1 / 10) 1 (Some ''c1'') True,
       TyperPrompt E],
      Raised UnboundLocalError)"
  by (simp add: run_defs demo_defs)

text \<open>
  C10. Piped input without a REPL: the prompt that \<^verbatim>\<open>main\<close> goes on with is the whole of
  standard input, two newline characters, and the prompt argument, or nothing when no
  prompt argument was given. On the single-shot path (no interactive mode, at most one
  mode flag, no editor, no chat) that text is the prompt of the one request made, to the
  default handler with the resolved role.
\<close>

theorem C10_piped_input_goes_in_front:
  assumes "\<not> stdin_isatty env" and "\<not> truthy (repl a)"
  shows "effective_prompt env a
           = Some (stdin_text env @ [CHR 0x0A, CHR 0x0A]
                     @ (case prompt a of None \<Rightarrow> [] | Some p \<Rightarrow> p))
       \<and> (\<not> interactive_mode a \<and> sum_flags (shell a) (describe_shell a) (code a) \<le> 1
            \<and> \<not> editor a \<and> \<not> truthy (chat a)
            \<and> resolve_role env a [StdinRead] = (tr1, Inr role_class)
          \<longrightarrow> fst (main env a n)
                = tr1 @ [Handle (DefaultHandler role_class)
                           (Some (stdin_text env @ [CHR 0x0A, CHR 0x0A]
                                    @ (case prompt a of None \<Rightarrow> [] | Some p \<Rightarrow> p)))
                           (model a) (temperature a) (top_probability a) None (cache a)])"
proof -
  have p: "effective_prompt env a
           = Some (stdin_text env @ [CHR 0x0A, CHR 0x0A]
                     @ (case prompt a of None \<Rightarrow> [] | Some p \<Rightarrow> p))"
    using assms by (simp add: effective_prompt_def stdin_passed_def split: option.splits)
  have r: "read_stdin env a = [StdinRead]"
    using assms by (simp add: read_stdin_def stdin_passed_def)
  show ?thesis
    using assms
    by (auto simp: p r main_def Let_def run_with_role_def chat_or_default_def call_handle_def
          stdin_passed_def shell_loop_piped split: sum.splits)
qed

theorem C10_piped_input_goes_in_front_witness:
  "\<not> stdin_isatty (demo_env False ''data'' [] [])
   \<and> \<not> truthy (repl (no_args\<lparr>prompt := Some ''sum it up''\<rparr>))
   \<and> effective_prompt (demo_env False ''data'' [] []) (no_args\<lparr>prompt := Some ''sum it up''\<rparr>)
       = Some (''data'' @ [CHR 0x0A, CHR 0x0A] @ ''sum it up'')
   \<and> fst (main (demo_env False ''data'' [] []) (no_args\<lparr>prompt := Some ''sum it up''\<rparr>) 0)
       = [StdinRead, CheckGet False False False,
          Handle (DefaultHandler (demo_get_role DEFAULT))
            (Some (''data'' @ [CHR 0x0A, CHR 0x0A] @ ''sum it up''))
            ''gpt-3.5-turbo'' (1 / 10) 1 None True]"
proof -
  let ?e = "demo_env False ''data'' [] []"
  let ?a = "no_args\<lparr>prompt := Some ''sum it up''\<rparr>"
  have h1: "\<not> stdin_isatty ?e" by (simp add: demo_env_def)
  have h2: "\<not> truthy (repl ?a)" by (simp add: no_args_def)
  have h3: "\<not> interactive_mode ?a \<and> sum_flags (shell ?a) (describe_shell ?a) (code ?a) \<le> 1
            \<and> \<not> editor ?a \<and> \<not> truthy (chat ?a)
            \<and> resolve_role ?e ?a [StdinRead]
                = ([StdinRead, CheckGet False False False], Inr (demo_get_role DEFAULT))"
    by (simp add: no_args_def sum_flags_def resolve_role_def check_get_def demo_env_def)
  have v: "stdin_text ?e = ''data''" "prompt ?a = Some ''sum it up''"
    "model ?a = ''gpt-3.5-turbo''" "temperature ?a = 1 / 10" "top_probability ?a = 1"
    "cache ?a = True"
    by (simp_all add: demo_env_def no_args_def)
  from C10_piped_input_goes_in_front
         [OF h1 h2, of "[StdinRead, CheckGet False False False]" "demo_get_role DEFAULT" 0] h3
  have "effective_prompt ?e ?a
           = Some (stdin_text ?e @ [CHR 0x0A, CHR 0x0A]
                     @ (case prompt ?a of None \<Rightarrow> [] | Some p \<Rightarrow> p))
       \<and> fst (main ?e ?a 0)
           = [StdinRead, CheckGet False False False]
             @ [Handle (DefaultHandler (demo_get_role DEFAULT))
                  (Some (stdin_text ?e @ [CHR 0x0A, CHR 0x0A]
                           @ (case prompt ?a of None \<Rightarrow> [] | Some p \<Rightarrow> p)))
                  (model ?a) (temperature ?a) (top_probability ?a) None (cache ?a)]"
    by blast
  then show ?thesis using h1 h2 unfolding v by simp
qed

end
